theory Spec2Isabelle
  imports Complex_Main "HOL-Library.Sublist"
begin

section \<open>The dashboard's data model\<close>

text \<open>
  The TypeScript types of \<^verbatim>\<open>Dashboard.svelte\<close>, \<^verbatim>\<open>AssetCard.svelte\<close>,
  \<^verbatim>\<open>AssetDetail\<close> and \<^verbatim>\<open>ScanEventList.svelte\<close>. An \<^verbatim>\<open>Asset\<close> is
  \<^verbatim>\<open>{id, tag_id, name, description, asset_type, status, last_seen, last_location}\<close>;
  \<^verbatim>\<open>status\<close> is a plain string there, and \<^verbatim>\<open>last_seen\<close> and \<^verbatim>\<open>last_location\<close> are
  \<^verbatim>\<open>string | null\<close> (the value comes from JSON), hence options. The field \<^verbatim>\<open>id\<close> is
  called \<open>asset_id\<close> because \<open>id\<close> is the identity function of HOL.
\<close>

record asset =
  asset_id :: int
  tag_id :: string
  name :: string
  description :: string
  asset_type :: string
  status :: string
  last_seen :: "string option"
  last_location :: "string option"

text \<open>
  A \<^verbatim>\<open>ScanEvent\<close> is \<^verbatim>\<open>{tag_id, location, timestamp, asset_name?, asset_type?, rssi?}\<close>.
  Its fields carry the prefix \<open>ev_\<close>, since \<open>tag_id\<close> and \<open>asset_type\<close> are fields of
  the asset record already. The optional fields are options.

  \<^verbatim>\<open>rssi\<close> is a \<^verbatim>\<open>number\<close>, a double, and reaches the components only through
  \<^verbatim>\<open>JSON.parse\<close> and \<^verbatim>\<open>response.json()\<close>. Such a number is never NaN: it is a
  finite double, given here by its value (so both zeros are \<open>Finite 0\<close>), or an infinity
  when the literal overflows.
\<close>

datatype js_number = Finite real | PosInfinity | NegInfinity

record scanEvent =
  ev_tag_id :: string
  ev_location :: string
  ev_timestamp :: string
  ev_asset_name :: "string option"
  ev_asset_type :: "string option"
  ev_rssi :: "js_number option"

text \<open>
  The component state of the dashboard: \<^verbatim>\<open>assets\<close>, \<^verbatim>\<open>recentScans\<close> and \<^verbatim>\<open>filter\<close>
  (called \<open>filter_value\<close>, \<open>filter\<close> being the list function of HOL). The list
  \<^verbatim>\<open>filteredAssets\<close> is recomputed from \<^verbatim>\<open>filter\<close> and \<^verbatim>\<open>assets\<close> by a reactive
  block, so it is a function of the two and not a field.
\<close>

record dashboard =
  assets :: "asset list"
  recentScans :: "scanEvent list"
  filter_value :: string

section \<open>Handling a scan event\<close>

text \<open>
  \<^verbatim>\<open>assets.find(a => a.tag_id === scanEvent.tag_id)\<close> returns the first asset with the
  event's tag, and the three assignments that follow mutate that object where it sits in
  the array. \<open>mutate_first P f xs\<close> applies \<open>f\<close> at the position of the first element
  that satisfies \<open>P\<close> and leaves every other position alone.
\<close>

fun mutate_first :: "('a \<Rightarrow> bool) \<Rightarrow> ('a \<Rightarrow> 'a) \<Rightarrow> 'a list \<Rightarrow> 'a list" where
  "mutate_first P f [] = []"
| "mutate_first P f (x # xs) = (if P x then f x # xs else x # mutate_first P f xs)"

definition mark_seen :: "scanEvent \<Rightarrow> asset \<Rightarrow> asset" where
  "mark_seen scanEvent a =
     a\<lparr>last_seen := Some (ev_timestamp scanEvent),
       last_location := Some (ev_location scanEvent),
       status := ''active''\<rparr>"

text \<open>
  \<^verbatim>\<open>
  function handleScanEvent(scanEvent: ScanEvent) {
    recentScans = [scanEvent, ...recentScans.slice(0, 4)];
    const asset = assets.find(a => a.tag_id === scanEvent.tag_id);
    if (asset) {
      asset.last_seen = scanEvent.timestamp;
      asset.last_location = scanEvent.location;
      asset.status = "active";
      assets = [...assets];
    }
  }
  \<close>
\<close>

definition handleScanEvent :: "scanEvent \<Rightarrow> dashboard \<Rightarrow> dashboard" where
  "handleScanEvent scanEvent d =
     (let d1 = d\<lparr>recentScans := scanEvent # take 4 (recentScans d)\<rparr>
      in case List.find (\<lambda>a. tag_id a = ev_tag_id scanEvent) (assets d1) of
           None \<Rightarrow> d1
         | Some a \<Rightarrow>
             d1\<lparr>assets := mutate_first (\<lambda>a. tag_id a = ev_tag_id scanEvent)
                              (mark_seen scanEvent) (assets d1)\<rparr>)"

text \<open>
  The reactive block that keeps \<^verbatim>\<open>filteredAssets\<close> up to date:
  \<^verbatim>\<open>
  if (filter === "all") { filteredAssets = [...assets]; }
  else { filteredAssets = assets.filter(asset => asset.status === filter); }
  \<close>
\<close>

definition filteredAssets :: "string \<Rightarrow> asset list \<Rightarrow> asset list" where
  "filteredAssets flt xs =
     (if flt = ''all'' then xs else filter (\<lambda>a. status a = flt) xs)"

section \<open>Submitting a manual scan\<close>

text \<open>
  Modelled from the spec: the raw event description that the Normalizer accepts
  (sections 4.1 and 6); the server's request model is missing. It is a submitted JSON
  object: \<open>tag_id\<close> and \<open>location\<close> may be there or not, a caller may add a time of
  its own, and the synthetic generator may attach an \<open>rssi\<close>. The body that
  \<^verbatim>\<open>ManualScanForm\<close> posts to \<^verbatim>\<open>/api/scan\<close>,
  \<^verbatim>\<open>JSON.stringify({tag_id: tagId, location: location})\<close>, is one such object.
\<close>

record raw_event =
  raw_tag_id :: "string option"
  raw_location :: "string option"
  raw_timestamp :: "int option"
  raw_rssi :: "int option"

record scanForm =
  tagId :: string
  location :: string
  submitting :: bool
  error :: string
  success :: string

text \<open>
  What \<^verbatim>\<open>fetch\<close> resolves to: \<^verbatim>\<open>response.ok\<close>, \<^verbatim>\<open>response.statusText\<close> and the
  outcome of \<^verbatim>\<open>response.json()\<close>, which is the parsed scan or the message of the error
  it rejects with.
\<close>

record response =
  ok :: bool
  statusText :: string
  json :: "string + scanEvent"

definition scan_body :: "scanForm \<Rightarrow> raw_event" where
  "scan_body f =
     \<lparr>raw_tag_id = Some (tagId f), raw_location = Some (location f),
      raw_timestamp = None, raw_rssi = None\<rparr>"

definition truthy_or :: "string option \<Rightarrow> string \<Rightarrow> string" where
  \<comment> \<open>\<^verbatim>\<open>a || b\<close> on an optional string: an absent or empty \<^verbatim>\<open>a\<close> is falsy.\<close>
  "truthy_or a b = (case a of None \<Rightarrow> b | Some s \<Rightarrow> if s = [] then b else s)"

text \<open>
  \<^verbatim>\<open>
  async function submitScan() {
    submitting = true; error = ""; success = "";
    try {
      const response = await fetch("/api/scan", {... body ...});
      if (!response.ok) throw new Error(`Error creating scan: ${response.statusText}`);
      const scanData: ScanEvent = await response.json();
      success = `Scan recorded for ${scanData.asset_name || tagId}`;
      onScanCreated(scanData);
    } catch (err) { error = err instanceof Error ? err.message : String(err); }
    finally { submitting = false; }
  }
  \<close>
  The server is not part of the component: \<open>fetch\<close> is a parameter, \<open>Inl m\<close> standing
  for a rejected request whose error reads \<open>m\<close>. \<open>onScanCreated\<close> is the callback
  property; the dashboard passes \<open>handleScanEvent\<close>.
\<close>

definition submitScan ::
  "(raw_event \<Rightarrow> string + response) \<Rightarrow> (scanEvent \<Rightarrow> 'd \<Rightarrow> 'd) \<Rightarrow>
   scanForm \<times> 'd \<Rightarrow> scanForm \<times> 'd" where
  "submitScan fetch onScanCreated fd =
     (let f = (fst fd)\<lparr>submitting := True, error := [], success := []\<rparr>; d = snd fd
      in case fetch (scan_body f) of
           Inl m \<Rightarrow> (f\<lparr>error := m, submitting := False\<rparr>, d)
         | Inr r \<Rightarrow>
             if \<not> ok r
             then (f\<lparr>error := ''Error creating scan: '' @ statusText r, submitting := False\<rparr>, d)
             else (case json r of
                     Inl m \<Rightarrow> (f\<lparr>error := m, submitting := False\<rparr>, d)
                   | Inr scanData \<Rightarrow>
                       (f\<lparr>success := ''Scan recorded for '' @
                                     truthy_or (ev_asset_name scanData) (tagId f),
                          submitting := False\<rparr>,
                        onScanCreated scanData d)))"

section \<open>Rendering\<close>

text \<open>
  \<^verbatim>\<open>format(parseISO(timestamp), pattern)\<close> belongs to the library date-fns: it is the
  parameter \<open>fmt\<close>, which takes the timestamp and the pattern and either throws or
  returns the text.
\<close>

datatype js_error = RangeError | TypeError

type_synonym date_format = "string \<Rightarrow> string \<Rightarrow> js_error + string"

text \<open>
  Each helper starts with \<^verbatim>\<open>if (!timestamp) return ...\<close>; on a \<^verbatim>\<open>string | null\<close>
  the test holds for null and for the empty string.
\<close>

definition formatTime :: "date_format \<Rightarrow> string option \<Rightarrow> js_error + string" where
  "formatTime fmt timestamp =
     (case timestamp of
        None \<Rightarrow> Inr ''N/A''
      | Some s \<Rightarrow> if s = [] then Inr ''N/A'' else fmt s ''h:mm:ss a'')"

definition formatDate :: "date_format \<Rightarrow> string option \<Rightarrow> js_error + string" where
  "formatDate fmt timestamp =
     (case timestamp of
        None \<Rightarrow> Inr ''N/A''
      | Some s \<Rightarrow> if s = [] then Inr ''N/A'' else fmt s ''MMM d'')"

definition formatLastSeen :: "date_format \<Rightarrow> string option \<Rightarrow> js_error + string" where
  "formatLastSeen fmt lastSeen =
     (case lastSeen of
        None \<Rightarrow> Inr ''Never''
      | Some s \<Rightarrow> if s = [] then Inr ''Never'' else fmt s ''MMM d, yyyy h:mm a'')"

text \<open>
  The text of a number in \<^verbatim>\<open>{event.rssi}\<close> and in \<^verbatim>\<open>${scan.rssi}\<close> is the
  language's conversion of a number to a string (shortest round-trip digits, exponent
  notation for large and small magnitudes): it is the parameter \<open>str\<close>.
\<close>

type_synonym number_format = "js_number \<Rightarrow> string"

text \<open>
  The signal-strength line of a list entry in \<^verbatim>\<open>ScanEventList.svelte\<close>:
  \<^verbatim>\<open>{#if event.rssi} Signal strength: {event.rssi} dBm {/if}\<close>. \<open>None\<close> is the
  line left out. A number is falsy when it is zero (or NaN, which does not occur); an
  absent \<^verbatim>\<open>rssi\<close> is undefined, falsy as well.
\<close>

definition signal_strength_line :: "number_format \<Rightarrow> scanEvent \<Rightarrow> string option" where
  "signal_strength_line str event =
     (case ev_rssi event of
        None \<Rightarrow> None
      | Some r \<Rightarrow>
          if r = Finite 0 then None else Some (''Signal strength: '' @ str r @ '' dBm''))"

text \<open>
  A row of the scan-history table: \<^verbatim>\<open>Scan = {id, location, timestamp, rssi}\<close> with
  \<^verbatim>\<open>rssi: number | null\<close>, and the cell
  \<^verbatim>\<open>{scan.rssi ? `${scan.rssi} dBm` : 'N/A'}\<close>.
\<close>

record scan =
  scan_id :: int
  scan_location :: string
  scan_timestamp :: string
  scan_rssi :: "js_number option"

definition signal_strength_cell :: "number_format \<Rightarrow> scan \<Rightarrow> string" where
  "signal_strength_cell str s =
     (case scan_rssi s of
        None \<Rightarrow> ''N/A''
      | Some r \<Rightarrow> if r = Finite 0 then ''N/A'' else str r @ '' dBm'')"

section \<open>The core pipeline\<close>

text \<open>
  The server (\<^verbatim>\<open>api/main.py\<close> and its modules) is not among the sources. Its data and
  operations are modelled from sections 3, 4.1, 4.2 and 4.3 of the specification. A
  timestamp is a whole number of time units on the process clock.
\<close>

datatype status_kind = Active | Idle | Missing

datatype core_error = InvalidEvent | UnknownTag

text \<open>
  Modelled from the spec: the Asset of section 3, held by the Asset State Store;
  the server's asset model is missing. \<open>c_status\<close> is the enum
  \<open>{active, idle, missing}\<close>, and \<open>c_last_seen\<close> and \<open>c_last_location\<close> are absent
  until the first accepted sighting.
\<close>

record core_asset =
  c_id :: int
  c_tag_id :: string
  c_name :: string
  c_description :: string
  c_asset_type :: string
  c_status :: status_kind
  c_last_seen :: "int option"
  c_last_location :: "string option"

text \<open>
  Modelled from the spec: the ScanEvent of section 3 as the Normalizer produces it;
  the server's event model is missing.
\<close>

record core_event =
  ce_tag_id :: string
  ce_location :: string
  ce_timestamp :: int
  ce_rssi :: "int option"
  ce_asset_name :: "string option"
  ce_asset_type :: "string option"

text \<open>
  Modelled from the spec: the Transition record \<open>{asset_id, old_status, new_status}\<close>
  of section 4.2; the server's type is missing.
\<close>

record transition =
  tr_asset_id :: int
  old_status :: status_kind
  new_status :: status_kind

text \<open>
  Modelled from the spec: the thresholds \<open>T_active\<close> and \<open>T_missing\<close> of section 4.3,
  which the core reads from its configuration; the server's configuration is missing.
\<close>

record thresholds =
  T_active :: int
  T_missing :: int

text \<open>
  Modelled from the spec: the Event Normalizer of section 4.1, missing from the sources.
  It fails with \<open>InvalidEvent\<close> when \<open>tag_id\<close> or \<open>location\<close> is missing or empty,
  and otherwise produces the canonical event, whose timestamp is the reading \<open>clock\<close> of
  the process clock at acceptance. The denormalized copies \<open>asset_name\<close> and
  \<open>asset_type\<close> are attached at emission, not here.
\<close>

definition normalize :: "int \<Rightarrow> raw_event \<Rightarrow> core_error + core_event" where
  "normalize clock raw =
     (case raw_tag_id raw of
        None \<Rightarrow> Inl InvalidEvent
      | Some t \<Rightarrow>
          if t = [] then Inl InvalidEvent
          else (case raw_location raw of
                  None \<Rightarrow> Inl InvalidEvent
                | Some l \<Rightarrow>
                    if l = [] then Inl InvalidEvent
                    else Inr \<lparr>ce_tag_id = t, ce_location = l, ce_timestamp = clock,
                              ce_rssi = raw_rssi raw, ce_asset_name = None,
                              ce_asset_type = None\<rparr>))"

text \<open>
  Modelled from the spec: the status of section 4.3 as a function of \<open>last_seen\<close> and
  the current time, missing from the sources. With \<open>\<Delta> = now - last_seen\<close>: active when
  \<open>\<Delta> < T_active\<close>, idle when \<open>T_active \<le> \<Delta> < T_missing\<close>, missing when
  \<open>\<Delta> \<ge> T_missing\<close> or \<open>last_seen\<close> is absent.
\<close>

definition derive_status :: "thresholds \<Rightarrow> int option \<Rightarrow> int \<Rightarrow> status_kind" where
  "derive_status cfg lastSeen now =
     (case lastSeen of
        None \<Rightarrow> Missing
      | Some t \<Rightarrow>
          if now - t < T_active cfg then Active
          else if now - t < T_missing cfg then Idle
          else Missing)"

text \<open>The severity order \<open>active \<rightarrow> idle \<rightarrow> missing\<close> of section 8.\<close>

fun severity :: "status_kind \<Rightarrow> nat" where
  "severity Active = 0"
| "severity Idle = 1"
| "severity Missing = 2"

text \<open>
  Modelled from the spec: \<open>apply\<close> of the Asset State Store (section 4.2), missing from
  the sources; it is called \<open>apply_event\<close>, \<open>apply\<close> being a proof command. The store
  holds one record per known asset. The operation fails with \<open>UnknownTag\<close> if no asset
  has the event's tag; on success it sets \<open>last_seen\<close> and \<open>last_location\<close> from the
  event, makes the status active, and returns the updated asset with the transition.
  The store after the call is returned in both cases.
\<close>

definition apply_event ::
  "core_event \<Rightarrow> core_asset list \<Rightarrow> core_asset list \<times> (core_error + core_asset \<times> transition)" where
  "apply_event event store =
     (case List.find (\<lambda>a. c_tag_id a = ce_tag_id event) store of
        None \<Rightarrow> (store, Inl UnknownTag)
      | Some a \<Rightarrow>
          (let a' = a\<lparr>c_last_seen := Some (ce_timestamp event),
                      c_last_location := Some (ce_location event),
                      c_status := Active\<rparr>
           in (mutate_first (\<lambda>a. c_tag_id a = ce_tag_id event) (\<lambda>_. a') store,
               Inr (a', \<lparr>tr_asset_id = c_id a, old_status = c_status a,
                         new_status = Active\<rparr>))))"

text \<open>
  Modelled from the spec: \<open>sweepStatuses\<close> of the Asset State Store (section 4.2),
  missing from the sources. It recomputes the status of every asset from its
  \<open>last_seen\<close> and \<open>now\<close>, and returns the new store with one transition for each asset
  whose status changed, in store order.
\<close>

fun sweepStatuses ::
  "thresholds \<Rightarrow> int \<Rightarrow> core_asset list \<Rightarrow> core_asset list \<times> transition list" where
  "sweepStatuses cfg now [] = ([], [])"
| "sweepStatuses cfg now (a # as) =
     (let s = derive_status cfg (c_last_seen a) now;
          r = sweepStatuses cfg now as
      in if s = c_status a then (a # fst r, snd r)
         else (a\<lparr>c_status := s\<rparr> # fst r,
               \<lparr>tr_asset_id = c_id a, old_status = c_status a, new_status = s\<rparr> # snd r))"

section \<open>Sample data\<close>

text \<open>
  A small fleet with the tags and locations that \<^verbatim>\<open>ManualScanForm\<close> offers, used to
  run the operations on concrete inputs.
\<close>

definition sample_assets :: "asset list" where
  "sample_assets =
     [\<lparr>asset_id = 1, tag_id = ''RF001'', name = ''Laptop'', description = ''Dell XPS'',
       asset_type = ''electronics'', status = ''missing'', last_seen = None,
       last_location = None\<rparr>,
      \<lparr>asset_id = 2, tag_id = ''RF002'', name = ''Chair'', description = [],
       asset_type = ''furniture'', status = ''idle'',
       last_seen = Some ''2024-05-01T09:00:00'', last_location = Some ''Lobby''\<rparr>,
      \<lparr>asset_id = 3, tag_id = ''RF003'', name = ''Projector'', description = [],
       asset_type = ''electronics'', status = ''active'',
       last_seen = Some ''2024-05-01T09:59:00'', last_location = Some ''Meeting Room''\<rparr>]"

definition sample_dashboard :: dashboard where
  "sample_dashboard = \<lparr>assets = sample_assets, recentScans = [], filter_value = ''all''\<rparr>"

definition sample_scan :: scanEvent where
  "sample_scan =
     \<lparr>ev_tag_id = ''RF002'', ev_location = ''Office'', ev_timestamp = ''2024-05-01T10:00:00'',
      ev_asset_name = Some ''Chair'', ev_asset_type = Some ''furniture'',
      ev_rssi = Some (Finite (- 52))\<rparr>"

definition stray_scan :: scanEvent where
  "stray_scan =
     \<lparr>ev_tag_id = ''RF999'', ev_location = ''Lobby'', ev_timestamp = ''2024-05-01T10:00:05'',
      ev_asset_name = None, ev_asset_type = None, ev_rssi = None\<rparr>"

definition sample_row :: scan where
  "sample_row =
     \<lparr>scan_id = 7, scan_location = ''Office'', scan_timestamp = ''2024-05-01T10:00:00'',
      scan_rssi = Some (Finite (- 52))\<rparr>"

definition sample_form :: scanForm where
  "sample_form =
     \<lparr>tagId = ''RF999'', location = ''Lobby'', submitting = False, error = [], success = []\<rparr>"

definition rejecting_server :: "raw_event \<Rightarrow> string + response" where
  "rejecting_server body = Inr \<lparr>ok = False, statusText = ''Not Found'', json = Inl []\<rparr>"

definition sample_thresholds :: thresholds where
  "sample_thresholds = \<lparr>T_active = 10, T_missing = 30\<rparr>"

definition sample_store :: "core_asset list" where
  "sample_store =
     [\<lparr>c_id = 1, c_tag_id = ''RF001'', c_name = ''Laptop'', c_description = [],
       c_asset_type = ''electronics'', c_status = Active, c_last_seen = Some 0,
       c_last_location = Some ''Office''\<rparr>,
      \<lparr>c_id = 2, c_tag_id = ''RF002'', c_name = ''Chair'', c_description = [],
       c_asset_type = ''furniture'', c_status = Missing, c_last_seen = None,
       c_last_location = None\<rparr>]"

definition stray_event :: core_event where
  "stray_event =
     \<lparr>ce_tag_id = ''RF999'', ce_location = ''Lobby'', ce_timestamp = 40, ce_rssi = None,
      ce_asset_name = None, ce_asset_type = None\<rparr>"

section \<open>Auxiliary facts\<close>

lemma mutate_first_decomp:
  "List.find P xs = Some a \<Longrightarrow>
   \<exists>pre post. xs = pre @ a # post \<and> (\<forall>x\<in>set pre. \<not> P x) \<and>
              mutate_first P f xs = pre @ f a # post"
proof (induction xs)
  case Nil
  then show ?case by simp
next
  case (Cons x xs)
  show ?case
  proof (cases "P x")
    case True
    with Cons.prems have "x = a" by simp
    with True have "x # xs = [] @ a # xs \<and> (\<forall>y\<in>set []. \<not> P y) \<and>
        mutate_first P f (x # xs) = [] @ f a # xs" by simp
    then show ?thesis by blast
  next
    case False
    with Cons.prems have "List.find P xs = Some a" by simp
    from Cons.IH [OF this] obtain pre post where
      h: "xs = pre @ a # post" "\<forall>y\<in>set pre. \<not> P y" "mutate_first P f xs = pre @ f a # post"
      by blast
    with False have "x # xs = (x # pre) @ a # post \<and> (\<forall>y\<in>set (x # pre). \<not> P y) \<and>
        mutate_first P f (x # xs) = (x # pre) @ f a # post" by simp
    then show ?thesis by blast
  qed
qed

lemma find_None_tags: "(List.find (\<lambda>a. f a = t) xs = None) = (t \<notin> f ` set xs)"
  by (auto simp: find_None_iff)

lemma dBm_not_NA: "s @ '' dBm'' \<noteq> ''N/A''"
proof
  assume "s @ '' dBm'' = ''N/A''"
  then have "length (s @ '' dBm'') = length ''N/A''" by (rule arg_cong)
  then show False by simp
qed

lemma severity_inj: "severity a = severity b \<Longrightarrow> a = b"
  by (cases a; cases b) simp_all

lemma derive_status_mono:
  "t1 \<le> t2 \<Longrightarrow> severity (derive_status cfg ls t1) \<le> severity (derive_status cfg ls t2)"
  by (cases ls) (auto simp: derive_status_def)

text \<open>A sweep, read off position by position: the store it leaves and the list it returns.\<close>

lemma fst_sweepStatuses:
  "fst (sweepStatuses cfg now store) =
     map (\<lambda>a. a\<lparr>c_status := derive_status cfg (c_last_seen a) now\<rparr>) store"
  by (induction store) (simp_all add: Let_def)

lemma snd_sweepStatuses:
  "snd (sweepStatuses cfg now store) =
     map (\<lambda>a. \<lparr>tr_asset_id = c_id a, old_status = c_status a,
                new_status = derive_status cfg (c_last_seen a) now\<rparr>)
         (filter (\<lambda>a. derive_status cfg (c_last_seen a) now \<noteq> c_status a) store)"
  by (induction store) (simp_all add: Let_def)

lemma transition_of_second_sweep:
  assumes "tr \<in> set (snd (sweepStatuses cfg t2 (fst (sweepStatuses cfg t1 store))))"
  shows "\<exists>l. old_status tr = derive_status cfg l t1 \<and>
        new_status tr = derive_status cfg l t2 \<and>
        derive_status cfg l t2 \<noteq> derive_status cfg l t1"
  using assms by (fastforce simp: snd_sweepStatuses fst_sweepStatuses)

lemma active_to_missing_gap:
  "T_active cfg < T_missing cfg \<Longrightarrow>
   derive_status cfg ls t1 = Active \<and> derive_status cfg ls t2 = Missing \<Longrightarrow>
   T_missing cfg - T_active cfg < t2 - t1"
  by (cases ls) (auto simp: derive_status_def split: if_splits)

lemma idle_between:
  assumes "T_active cfg < T_missing cfg"
    and "derive_status cfg ls t1 = Active \<and> derive_status cfg ls t2 = Missing"
  shows "\<exists>t. t1 < t \<and> t < t2 \<and> derive_status cfg ls t = Idle"
proof (cases ls)
  case None
  with assms(2) show ?thesis by (simp add: derive_status_def)
next
  case (Some s)
  with assms have "t1 < s + T_active cfg \<and> s + T_active cfg < t2 \<and>
      derive_status cfg ls (s + T_active cfg) = Idle"
    by (auto simp: derive_status_def split: if_splits)
  then show ?thesis by blast
qed

section \<open>The state store on the dashboard\<close>

text \<open>
  C1. For every known tag, handling a scan event sets the status of the matching asset
  (the first one carrying the tag) to active, its \<open>last_seen\<close> to the event's timestamp
  and its \<open>last_location\<close> to the event's location, whatever its status was; its other
  fields and all other assets stay as they were.
\<close>

theorem handleScanEvent_known_tag:
  assumes "ev_tag_id ev \<in> tag_id ` set (assets d)"
  shows "\<exists>pre a post.
           assets d = pre @ a # post \<and> tag_id a = ev_tag_id ev \<and>
           (\<forall>x\<in>set pre. tag_id x \<noteq> ev_tag_id ev) \<and>
           assets (handleScanEvent ev d) =
             pre @ a\<lparr>last_seen := Some (ev_timestamp ev),
                      last_location := Some (ev_location ev),
                      status := ''active''\<rparr> # post"
proof -
  let ?P = "\<lambda>a. tag_id a = ev_tag_id ev"
  from assms have "\<exists>x\<in>set (assets d). ?P x" by auto
  then obtain a where fa: "List.find ?P (assets d) = Some a"
    by (cases "List.find ?P (assets d)") (auto simp: find_None_iff)
  then have Pa: "?P a" by (auto simp: find_Some_iff)
  from mutate_first_decomp [OF fa, of "mark_seen ev"] obtain pre post where
    h: "assets d = pre @ a # post" "\<forall>x\<in>set pre. \<not> ?P x"
       "mutate_first ?P (mark_seen ev) (assets d) = pre @ mark_seen ev a # post"
    by blast
  from fa h(3) have "assets (handleScanEvent ev d) = pre @ mark_seen ev a # post"
    by (simp add: handleScanEvent_def)
  with h(1,2) Pa show ?thesis
    unfolding mark_seen_def by blast
qed

theorem handleScanEvent_known_tag_witness:
  "ev_tag_id sample_scan \<in> tag_id ` set (assets sample_dashboard) \<and>
   (\<exists>pre a post.
      assets sample_dashboard = pre @ a # post \<and> tag_id a = ev_tag_id sample_scan \<and>
      (\<forall>x\<in>set pre. tag_id x \<noteq> ev_tag_id sample_scan) \<and>
      assets (handleScanEvent sample_scan sample_dashboard) =
        pre @ a\<lparr>last_seen := Some (ev_timestamp sample_scan),
                 last_location := Some (ev_location sample_scan),
                 status := ''active''\<rparr> # post)"
proof -
  have h: "ev_tag_id sample_scan \<in> tag_id ` set (assets sample_dashboard)"
    by (simp add: sample_scan_def sample_dashboard_def sample_assets_def)
  from handleScanEvent_known_tag [OF h] h show ?thesis by blast
qed

text \<open>
  C2. An event whose tag matches no known asset leaves every asset as it was, and the
  submitter gets an error: the dashboard's asset list is unchanged by such an event, the
  store's \<open>apply\<close> returns the store unchanged together with \<open>UnknownTag\<close>, and a
  submission that the server refuses leaves the dashboard untouched and shows the error
  in the form.
\<close>

theorem unknown_tag_rejected:
  "(ev_tag_id ev \<notin> tag_id ` set (assets d) \<longrightarrow>
      assets (handleScanEvent ev d) = assets d) \<and>
   (ce_tag_id e \<notin> c_tag_id ` set store \<longrightarrow>
      apply_event e store = (store, Inl UnknownTag)) \<and>
   (fetch (scan_body (f\<lparr>submitting := True, error := [], success := []\<rparr>)) = Inr r \<and> \<not> ok r \<longrightarrow>
      snd (submitScan fetch handleScanEvent (f, d)) = d \<and>
      error (fst (submitScan fetch handleScanEvent (f, d))) =
        ''Error creating scan: '' @ statusText r)"
proof (intro conjI impI)
  assume "ev_tag_id ev \<notin> tag_id ` set (assets d)"
  then have "List.find (\<lambda>a. tag_id a = ev_tag_id ev) (assets d) = None"
    by (simp add: find_None_tags)
  then show "assets (handleScanEvent ev d) = assets d"
    by (simp add: handleScanEvent_def)
next
  assume "ce_tag_id e \<notin> c_tag_id ` set store"
  then have "List.find (\<lambda>a. c_tag_id a = ce_tag_id e) store = None"
    by (simp add: find_None_tags)
  then show "apply_event e store = (store, Inl UnknownTag)"
    by (simp add: apply_event_def)
next
  assume a: "fetch (scan_body (f\<lparr>submitting := True, error := [], success := []\<rparr>)) = Inr r
             \<and> \<not> ok r"
  then show "snd (submitScan fetch handleScanEvent (f, d)) = d"
    by (simp add: submitScan_def)
  from a show "error (fst (submitScan fetch handleScanEvent (f, d))) =
        ''Error creating scan: '' @ statusText r"
    by (simp add: submitScan_def)
qed

theorem unknown_tag_rejected_witness:
  "ev_tag_id stray_scan \<notin> tag_id ` set (assets sample_dashboard) \<and>
   assets (handleScanEvent stray_scan sample_dashboard) = assets sample_dashboard \<and>
   ce_tag_id stray_event \<notin> c_tag_id ` set sample_store \<and>
   apply_event stray_event sample_store = (sample_store, Inl UnknownTag) \<and>
   snd (submitScan rejecting_server handleScanEvent (sample_form, sample_dashboard)) =
     sample_dashboard \<and>
   error (fst (submitScan rejecting_server handleScanEvent (sample_form, sample_dashboard))) =
     ''Error creating scan: Not Found''"
proof -
  let ?r = "\<lparr>ok = False, statusText = ''Not Found'', json = Inl []\<rparr>"
  have h1: "ev_tag_id stray_scan \<notin> tag_id ` set (assets sample_dashboard)"
    by (simp add: stray_scan_def sample_dashboard_def sample_assets_def)
  have h2: "ce_tag_id stray_event \<notin> c_tag_id ` set sample_store"
    by (simp add: stray_event_def sample_store_def)
  have h3: "rejecting_server
              (scan_body (sample_form\<lparr>submitting := True, error := [], success := []\<rparr>)) = Inr ?r
            \<and> \<not> ok ?r"
    by (simp add: rejecting_server_def)
  from unknown_tag_rejected [where ev = stray_scan and d = sample_dashboard
      and e = stray_event and store = sample_store and fetch = rejecting_server
      and f = sample_form and r = ?r] h1 h2 h3
  show ?thesis by simp
qed

section \<open>Status derivation and reconciliation\<close>

text \<open>
  C3. The status is a function of \<open>last_seen\<close> and the current time: under
  \<open>T_active < T_missing\<close> and with \<open>\<Delta> = now - last_seen\<close>, it is active iff
  \<open>\<Delta> < T_active\<close>, idle iff \<open>T_active \<le> \<Delta> < T_missing\<close>, and missing iff
  \<open>\<Delta> \<ge> T_missing\<close> or \<open>last_seen\<close> is absent; a never-seen asset is missing. After
  a sweep at \<open>now\<close> every stored status is this function of the asset's \<open>last_seen\<close>.
\<close>

theorem derive_status_thresholds:
  assumes "T_active cfg < T_missing cfg"
  shows "(derive_status cfg ls now = Active \<longleftrightarrow> (\<exists>t. ls = Some t \<and> now - t < T_active cfg)) \<and>
         (derive_status cfg ls now = Idle \<longleftrightarrow>
            (\<exists>t. ls = Some t \<and> T_active cfg \<le> now - t \<and> now - t < T_missing cfg)) \<and>
         (derive_status cfg ls now = Missing \<longleftrightarrow>
            (ls = None \<or> (\<exists>t. ls = Some t \<and> T_missing cfg \<le> now - t))) \<and>
         derive_status cfg None now = Missing \<and>
         map c_status (fst (sweepStatuses cfg now store)) =
           map (\<lambda>a. derive_status cfg (c_last_seen a) now) store"
proof -
  have "map c_status (fst (sweepStatuses cfg now store)) =
           map (\<lambda>a. derive_status cfg (c_last_seen a) now) store"
    by (simp add: fst_sweepStatuses o_def)
  with assms show ?thesis
    by (cases ls) (auto simp: derive_status_def)
qed

theorem derive_status_thresholds_witness:
  "T_active sample_thresholds < T_missing sample_thresholds \<and>
   derive_status sample_thresholds (Some 0) 5 = Active \<and>
   derive_status sample_thresholds (Some 0) 15 = Idle \<and>
   derive_status sample_thresholds (Some 0) 35 = Missing \<and>
   derive_status sample_thresholds None 35 = Missing"
proof -
  have h: "T_active sample_thresholds < T_missing sample_thresholds"
    by (simp add: sample_thresholds_def)
  have v: "T_active sample_thresholds = 10" "T_missing sample_thresholds = 30"
    by (simp_all add: sample_thresholds_def)
  from derive_status_thresholds [OF h, of "Some 0" 5]
  have a: "derive_status sample_thresholds (Some 0) 5 = Active" by (simp add: v)
  from derive_status_thresholds [OF h, of "Some 0" 15]
  have b: "derive_status sample_thresholds (Some 0) 15 = Idle" by (simp add: v)
  from derive_status_thresholds [OF h, of "Some 0" 35]
  have c: "derive_status sample_thresholds (Some 0) 35 = Missing" by (simp add: v)
  from derive_status_thresholds [OF h, of None 35]
  have d: "derive_status sample_thresholds None 35 = Missing" by simp
  from h a b c d show ?thesis by simp
qed

text \<open>
  C4. Reconciliation is idempotent: a second \<open>sweepStatuses\<close> at the same \<open>now\<close>, with
  no \<open>apply\<close> in between, returns no transition and leaves the store as the first left
  it; and every transition a sweep returns belongs to an asset of the store whose status
  changed, from its stored status to the derived one.
\<close>

theorem sweepStatuses_idempotent:
  "snd (sweepStatuses cfg now (fst (sweepStatuses cfg now store))) = [] \<and>
   fst (sweepStatuses cfg now (fst (sweepStatuses cfg now store))) =
     fst (sweepStatuses cfg now store) \<and>
   (\<forall>tr \<in> set (snd (sweepStatuses cfg now store)).
      old_status tr \<noteq> new_status tr \<and>
      (\<exists>a \<in> set store. tr_asset_id tr = c_id a \<and> old_status tr = c_status a \<and>
         new_status tr = derive_status cfg (c_last_seen a) now))"
proof (intro conjI)
  show "snd (sweepStatuses cfg now (fst (sweepStatuses cfg now store))) = []"
    by (simp add: snd_sweepStatuses fst_sweepStatuses filter_map o_def)
  show "fst (sweepStatuses cfg now (fst (sweepStatuses cfg now store))) =
     fst (sweepStatuses cfg now store)"
    by (simp add: fst_sweepStatuses o_def)
  show "\<forall>tr \<in> set (snd (sweepStatuses cfg now store)).
      old_status tr \<noteq> new_status tr \<and>
      (\<exists>a \<in> set store. tr_asset_id tr = c_id a \<and> old_status tr = c_status a \<and>
         new_status tr = derive_status cfg (c_last_seen a) now)"
    by (auto simp: snd_sweepStatuses)
qed

theorem sweepStatuses_idempotent_witness:
  "snd (sweepStatuses sample_thresholds 15 sample_store) =
     [\<lparr>tr_asset_id = 1, old_status = Active, new_status = Idle\<rparr>] \<and>
   snd (sweepStatuses sample_thresholds 15
          (fst (sweepStatuses sample_thresholds 15 sample_store))) = [] \<and>
   old_status (hd (snd (sweepStatuses sample_thresholds 15 sample_store))) \<noteq>
     new_status (hd (snd (sweepStatuses sample_thresholds 15 sample_store)))"
proof -
  let ?trs = "snd (sweepStatuses sample_thresholds 15 sample_store)"
  have s: "?trs = [\<lparr>tr_asset_id = 1, old_status = Active, new_status = Idle\<rparr>]"
    by (simp add: sample_thresholds_def sample_store_def derive_status_def)
  then have m: "hd ?trs \<in> set ?trs" by simp
  note t = sweepStatuses_idempotent [of sample_thresholds 15 sample_store]
  from t have e: "snd (sweepStatuses sample_thresholds 15
          (fst (sweepStatuses sample_thresholds 15 sample_store))) = []" by blast
  from t m have "old_status (hd ?trs) \<noteq> new_status (hd ?trs)" by blast
  with s e show ?thesis by blast
qed

text \<open>
  C5. Status decay is monotone: with \<open>last_seen\<close> fixed, the status derived at a later
  time is at least as severe, in the order active, idle, missing, as the one derived at
  an earlier time, so a sweep that follows an earlier sweep only returns transitions
  that move away from active. The decay follows the threshold ordering
  \<open>T_active < T_missing\<close>: from one time unit to the next the status leaves active
  exactly when \<open>\<Delta>\<close> reaches \<open>T_active\<close>, and then for idle, leaves idle exactly when
  \<open>\<Delta>\<close> reaches \<open>T_missing\<close>, and never goes from active to missing; between an
  active and a missing observation more than \<open>T_missing - T_active\<close> has elapsed and
  there is a time at which the status is idle.
\<close>

theorem status_decay_monotone:
  assumes "t1 \<le> t2"
  shows "severity (derive_status cfg ls t1) \<le> severity (derive_status cfg ls t2) \<and>
         (\<forall>tr \<in> set (snd (sweepStatuses cfg t2 (fst (sweepStatuses cfg t1 store)))).
            severity (old_status tr) < severity (new_status tr)) \<and>
         (T_active cfg < T_missing cfg \<longrightarrow>
            (derive_status cfg ls t1 = Active \<and> derive_status cfg ls (t1 + 1) = Idle \<longleftrightarrow>
               (\<exists>s. ls = Some s \<and> t1 + 1 - s = T_active cfg)) \<and>
            (derive_status cfg ls t1 = Idle \<and> derive_status cfg ls (t1 + 1) = Missing \<longleftrightarrow>
               (\<exists>s. ls = Some s \<and> t1 + 1 - s = T_missing cfg)) \<and>
            \<not> (derive_status cfg ls t1 = Active \<and> derive_status cfg ls (t1 + 1) = Missing) \<and>
            (derive_status cfg ls t1 = Active \<and> derive_status cfg ls t2 = Missing \<longrightarrow>
               T_missing cfg - T_active cfg < t2 - t1 \<and>
               (\<exists>t. t1 < t \<and> t < t2 \<and> derive_status cfg ls t = Idle)) \<and>
            (\<forall>tr \<in> set (snd (sweepStatuses cfg t2 (fst (sweepStatuses cfg t1 store)))).
               old_status tr = Active \<and> new_status tr = Missing \<longrightarrow>
               T_missing cfg - T_active cfg < t2 - t1))"
proof (intro conjI impI)
  show "severity (derive_status cfg ls t1) \<le> severity (derive_status cfg ls t2)"
    using assms by (rule derive_status_mono)
next
  show "\<forall>tr \<in> set (snd (sweepStatuses cfg t2 (fst (sweepStatuses cfg t1 store)))).
            severity (old_status tr) < severity (new_status tr)"
  proof
    fix tr
    assume "tr \<in> set (snd (sweepStatuses cfg t2 (fst (sweepStatuses cfg t1 store))))"
    then have "\<exists>l. old_status tr = derive_status cfg l t1 \<and>
        new_status tr = derive_status cfg l t2 \<and>
        derive_status cfg l t2 \<noteq> derive_status cfg l t1"
      by (rule transition_of_second_sweep)
    then obtain l where
      o: "old_status tr = derive_status cfg l t1" and
      n: "new_status tr = derive_status cfg l t2" and
      d: "derive_status cfg l t2 \<noteq> derive_status cfg l t1"
      by blast
    from assms have "severity (derive_status cfg l t1) \<le> severity (derive_status cfg l t2)"
      by (rule derive_status_mono)
    moreover from d have "severity (derive_status cfg l t1) \<noteq> severity (derive_status cfg l t2)"
      by (auto dest: severity_inj)
    ultimately show "severity (old_status tr) < severity (new_status tr)"
      using o n by simp
  qed
next
  assume "T_active cfg < T_missing cfg"
  then show "derive_status cfg ls t1 = Active \<and> derive_status cfg ls (t1 + 1) = Idle \<longleftrightarrow>
               (\<exists>s. ls = Some s \<and> t1 + 1 - s = T_active cfg)"
    by (cases ls) (auto simp: derive_status_def)
next
  assume "T_active cfg < T_missing cfg"
  then show "derive_status cfg ls t1 = Idle \<and> derive_status cfg ls (t1 + 1) = Missing \<longleftrightarrow>
               (\<exists>s. ls = Some s \<and> t1 + 1 - s = T_missing cfg)"
    by (cases ls) (auto simp: derive_status_def)
next
  assume "T_active cfg < T_missing cfg"
  then show "\<not> (derive_status cfg ls t1 = Active \<and> derive_status cfg ls (t1 + 1) = Missing)"
    by (cases ls) (auto simp: derive_status_def)
next
  assume "T_active cfg < T_missing cfg"
    and "derive_status cfg ls t1 = Active \<and> derive_status cfg ls t2 = Missing"
  then show "T_missing cfg - T_active cfg < t2 - t1"
    by (rule active_to_missing_gap)
next
  assume "T_active cfg < T_missing cfg"
    and "derive_status cfg ls t1 = Active \<and> derive_status cfg ls t2 = Missing"
  then show "\<exists>t. t1 < t \<and> t < t2 \<and> derive_status cfg ls t = Idle"
    by (rule idle_between)
next
  assume lt: "T_active cfg < T_missing cfg"
  show "\<forall>tr \<in> set (snd (sweepStatuses cfg t2 (fst (sweepStatuses cfg t1 store)))).
               old_status tr = Active \<and> new_status tr = Missing \<longrightarrow>
               T_missing cfg - T_active cfg < t2 - t1"
  proof (intro ballI impI)
    fix tr
    assume m: "tr \<in> set (snd (sweepStatuses cfg t2 (fst (sweepStatuses cfg t1 store))))"
      and am: "old_status tr = Active \<and> new_status tr = Missing"
    from transition_of_second_sweep [OF m] obtain l where "old_status tr = derive_status cfg l t1"
      "new_status tr = derive_status cfg l t2" by blast
    with am have "derive_status cfg l t1 = Active \<and> derive_status cfg l t2 = Missing" by simp
    with lt show "T_missing cfg - T_active cfg < t2 - t1"
      by (rule active_to_missing_gap)
  qed
qed


theorem status_decay_monotone_witness:
  "(5::int) \<le> 35 \<and> T_active sample_thresholds < T_missing sample_thresholds \<and>
   derive_status sample_thresholds (Some 0) 5 = Active \<and>
   derive_status sample_thresholds (Some 0) 35 = Missing \<and>
   severity (derive_status sample_thresholds (Some 0) 5)
     \<le> severity (derive_status sample_thresholds (Some 0) 35) \<and>
   T_missing sample_thresholds - T_active sample_thresholds < 35 - 5 \<and>
   (\<exists>t. 5 < t \<and> t < 35 \<and> derive_status sample_thresholds (Some 0) t = Idle) \<and>
   derive_status sample_thresholds (Some 0) 9 = Active \<and>
   derive_status sample_thresholds (Some 0) (9 + 1) = Idle \<and>
   derive_status sample_thresholds (Some 0) 29 = Idle \<and>
   derive_status sample_thresholds (Some 0) (29 + 1) = Missing \<and>
   snd (sweepStatuses sample_thresholds 35 (fst (sweepStatuses sample_thresholds 5 sample_store))) =
     [\<lparr>tr_asset_id = 1, old_status = Active, new_status = Missing\<rparr>] \<and>
   severity (old_status (hd (snd (sweepStatuses sample_thresholds 35
                                   (fst (sweepStatuses sample_thresholds 5 sample_store))))))
     < severity (new_status (hd (snd (sweepStatuses sample_thresholds 35
                                   (fst (sweepStatuses sample_thresholds 5 sample_store))))))"
proof -
  let ?trs = "snd (sweepStatuses sample_thresholds 35
                    (fst (sweepStatuses sample_thresholds 5 sample_store)))"
  have h: "(5::int) \<le> 35" by simp
  have c: "T_active sample_thresholds < T_missing sample_thresholds"
    by (simp add: sample_thresholds_def)
  have v: "T_active sample_thresholds = 10" "T_missing sample_thresholds = 30"
    by (simp_all add: sample_thresholds_def)
  have a5: "derive_status sample_thresholds (Some 0) 5 = Active"
    and m35: "derive_status sample_thresholds (Some 0) 35 = Missing"
    by (simp_all add: derive_status_def sample_thresholds_def)
  have s: "?trs = [\<lparr>tr_asset_id = 1, old_status = Active, new_status = Missing\<rparr>]"
    by (simp add: sample_thresholds_def sample_store_def derive_status_def)
  then have m: "hd ?trs \<in> set ?trs" by simp
  note t = status_decay_monotone [OF h, of sample_thresholds "Some 0" sample_store]
  from t have mono: "severity (derive_status sample_thresholds (Some 0) 5)
     \<le> severity (derive_status sample_thresholds (Some 0) 35)" by blast
  from t m have up: "severity (old_status (hd ?trs)) < severity (new_status (hd ?trs))" by blast
  from t c a5 m35 have gap: "T_missing sample_thresholds - T_active sample_thresholds < 35 - 5"
    by blast
  from t c a5 m35 have mid: "\<exists>t. 5 < t \<and> t < 35 \<and>
      derive_status sample_thresholds (Some 0) t = Idle" by blast
  have "(9::int) \<le> 9" by simp
  from status_decay_monotone [OF this, of sample_thresholds "Some 0" sample_store] c
  have "derive_status sample_thresholds (Some 0) 9 = Active \<and>
        derive_status sample_thresholds (Some 0) (9 + 1) = Idle \<longleftrightarrow>
        (\<exists>s. Some (0::int) = Some s \<and> 9 + 1 - s = T_active sample_thresholds)" by blast
  then have s9: "derive_status sample_thresholds (Some 0) 9 = Active \<and>
        derive_status sample_thresholds (Some 0) (9 + 1) = Idle" by (simp add: v)
  have "(29::int) \<le> 29" by simp
  from status_decay_monotone [OF this, of sample_thresholds "Some 0" sample_store] c
  have "derive_status sample_thresholds (Some 0) 29 = Idle \<and>
        derive_status sample_thresholds (Some 0) (29 + 1) = Missing \<longleftrightarrow>
        (\<exists>s. Some (0::int) = Some s \<and> 29 + 1 - s = T_missing sample_thresholds)" by blast
  then have s29: "derive_status sample_thresholds (Some 0) 29 = Idle \<and>
        derive_status sample_thresholds (Some 0) (29 + 1) = Missing" by (simp add: v)
  from h c a5 m35 mono gap mid s9 s29 s up show ?thesis by blast
qed

section \<open>Normalizing a submission\<close>

text \<open>
  C6. The Normalizer produces a canonical event exactly when \<open>tag_id\<close> and \<open>location\<close>
  are both present and non-empty, and fails with \<open>InvalidEvent\<close> otherwise; the
  event's timestamp is the clock reading, whatever time the caller supplied; and the
  form's submission carries \<open>tag_id\<close> and \<open>location\<close> only.
\<close>

theorem normalize_accepts_iff:
  "((\<exists>e. normalize clock raw = Inr e) \<longleftrightarrow>
      (\<exists>t l. raw_tag_id raw = Some t \<and> t \<noteq> [] \<and> raw_location raw = Some l \<and> l \<noteq> [])) \<and>
   (normalize clock raw = Inl InvalidEvent \<longleftrightarrow>
      \<not> (\<exists>t l. raw_tag_id raw = Some t \<and> t \<noteq> [] \<and> raw_location raw = Some l \<and> l \<noteq> [])) \<and>
   (\<forall>e. normalize clock raw = Inr e \<longrightarrow>
      ce_timestamp e = clock \<and> raw_tag_id raw = Some (ce_tag_id e) \<and>
      raw_location raw = Some (ce_location e)) \<and>
   normalize clock (raw\<lparr>raw_timestamp := claimed\<rparr>) = normalize clock raw \<and>
   raw_timestamp (scan_body f) = None \<and> raw_rssi (scan_body f) = None \<and>
   raw_tag_id (scan_body f) = Some (tagId f) \<and> raw_location (scan_body f) = Some (location f)"
  by (auto simp: normalize_def scan_body_def split: option.splits)

theorem normalize_accepts_iff_witness:
  "normalize 40 (scan_body sample_form) =
     Inr \<lparr>ce_tag_id = ''RF999'', ce_location = ''Lobby'', ce_timestamp = 40, ce_rssi = None,
          ce_asset_name = None, ce_asset_type = None\<rparr> \<and>
   ce_timestamp \<lparr>ce_tag_id = ''RF999'', ce_location = ''Lobby'', ce_timestamp = 40,
                 ce_rssi = None, ce_asset_name = None, ce_asset_type = None\<rparr> = 40 \<and>
   normalize 40 ((scan_body sample_form)\<lparr>raw_timestamp := Some 7\<rparr>) =
     normalize 40 (scan_body sample_form) \<and>
   normalize 40 ((scan_body sample_form)\<lparr>raw_location := Some []\<rparr>) = Inl InvalidEvent"
proof -
  let ?e = "\<lparr>ce_tag_id = ''RF999'', ce_location = ''Lobby'', ce_timestamp = 40, ce_rssi = None,
          ce_asset_name = None, ce_asset_type = None\<rparr>"
  have h: "normalize 40 (scan_body sample_form) = Inr ?e"
    by (simp add: normalize_def scan_body_def sample_form_def)
  have g: "normalize 40 ((scan_body sample_form)\<lparr>raw_location := Some []\<rparr>) = Inl InvalidEvent"
    by (simp add: normalize_def scan_body_def sample_form_def)
  from normalize_accepts_iff [of 40 "scan_body sample_form" "Some 7" sample_form] h g
  show ?thesis by simp
qed

section \<open>The dashboard's lists and labels\<close>

text \<open>
  C7. Filtering the asset list by a status value returns exactly the assets with that
  status, in their original order, and filtering by \<open>all\<close> returns the whole list.
\<close>

theorem filteredAssets_exact:
  "filteredAssets ''all'' xs = xs \<and>
   (flt \<noteq> ''all'' \<longrightarrow>
      filteredAssets flt xs = filter (\<lambda>a. status a = flt) xs \<and>
      set (filteredAssets flt xs) = {a \<in> set xs. status a = flt} \<and>
      subseq (filteredAssets flt xs) xs)"
  by (simp add: filteredAssets_def)

theorem filteredAssets_exact_witness:
  "''active'' \<noteq> ''all'' \<and>
   filteredAssets ''active'' sample_assets = [sample_assets ! 2] \<and>
   subseq (filteredAssets ''active'' sample_assets) sample_assets \<and>
   filteredAssets ''all'' sample_assets = sample_assets"
proof -
  have h: "''active'' \<noteq> ''all''" by simp
  have v: "filter (\<lambda>a. status a = ''active'') sample_assets = [sample_assets ! 2]"
    by (simp add: sample_assets_def)
  from filteredAssets_exact [of sample_assets "''active''"] h
  have c: "filteredAssets ''all'' sample_assets = sample_assets"
    "filteredAssets ''active'' sample_assets = filter (\<lambda>a. status a = ''active'') sample_assets"
    "subseq (filteredAssets ''active'' sample_assets) sample_assets"
    by blast+
  from c(2) v have "filteredAssets ''active'' sample_assets = [sample_assets ! 2]"
    by (rule trans)
  with h c(1,3) show ?thesis by blast
qed

text \<open>
  C8. The recent-scans list is a bounded newest-first buffer: after a scan event is
  handled the list has at most 5 entries, the new event is its head, and the entries
  behind it are the first four of the old list, in their old order.
\<close>

theorem recentScans_bounded:
  "recentScans (handleScanEvent ev d) = ev # take 4 (recentScans d) \<and>
   length (recentScans (handleScanEvent ev d)) \<le> 5 \<and>
   prefix (tl (recentScans (handleScanEvent ev d))) (recentScans d)"
  by (simp add: handleScanEvent_def Let_def take_is_prefix split: option.splits)

text \<open>
  C9. The timestamp helpers are total on missing input: for a null or empty timestamp
  \<open>formatTime\<close> and \<open>formatDate\<close> return \<open>N/A\<close> and \<open>formatLastSeen\<close> returns
  \<open>Never\<close>, whatever the date library would do (the result does not depend on it).
\<close>

theorem format_missing_timestamp:
  "formatTime fmt None = Inr ''N/A'' \<and> formatTime fmt (Some []) = Inr ''N/A'' \<and>
   formatDate fmt None = Inr ''N/A'' \<and> formatDate fmt (Some []) = Inr ''N/A'' \<and>
   formatLastSeen fmt None = Inr ''Never'' \<and> formatLastSeen fmt (Some []) = Inr ''Never''"
  by (simp add: formatTime_def formatDate_def formatLastSeen_def)

text \<open>
  C10. The signal strength is rendered iff \<open>rssi\<close> is present and not zero. For such a
  reading the list entry has the line \<open>Signal strength: r dBm\<close> and the cell of the
  history table reads \<open>r dBm\<close>, with \<open>r\<close> the text of the number; the line is left
  out, and the cell reads \<open>N/A\<close>, exactly when \<open>rssi\<close> is absent or 0, so a reading
  of 0 is shown like an absent one.
\<close>

theorem rssi_rendered_iff_nonzero:
  "(signal_strength_line str event = None \<longleftrightarrow>
      ev_rssi event = None \<or> ev_rssi event = Some (Finite 0)) \<and>
   (\<forall>r. ev_rssi event = Some r \<and> r \<noteq> Finite 0 \<longrightarrow>
      signal_strength_line str event = Some (''Signal strength: '' @ str r @ '' dBm'')) \<and>
   (signal_strength_cell str s = ''N/A'' \<longleftrightarrow>
      scan_rssi s = None \<or> scan_rssi s = Some (Finite 0)) \<and>
   (\<forall>r. scan_rssi s = Some r \<and> r \<noteq> Finite 0 \<longrightarrow>
      signal_strength_cell str s = str r @ '' dBm'') \<and>
   signal_strength_line str (event\<lparr>ev_rssi := Some (Finite 0)\<rparr>) =
     signal_strength_line str (event\<lparr>ev_rssi := None\<rparr>) \<and>
   signal_strength_cell str (s\<lparr>scan_rssi := Some (Finite 0)\<rparr>) =
     signal_strength_cell str (s\<lparr>scan_rssi := None\<rparr>)"
  by (auto simp: signal_strength_line_def signal_strength_cell_def dBm_not_NA
           split: option.splits)

theorem rssi_rendered_iff_nonzero_witness:
  "ev_rssi sample_scan = Some (Finite (- 52)) \<and> Finite (- 52) \<noteq> Finite 0 \<and>
   signal_strength_line (\<lambda>n. ''-52'') sample_scan = Some ''Signal strength: -52 dBm'' \<and>
   scan_rssi sample_row = Some (Finite (- 52)) \<and>
   signal_strength_cell (\<lambda>n. ''-52'') sample_row = ''-52 dBm'' \<and>
   signal_strength_line (\<lambda>n. ''0'') (sample_scan\<lparr>ev_rssi := Some (Finite 0)\<rparr>) = None \<and>
   signal_strength_cell (\<lambda>n. ''0'') (sample_row\<lparr>scan_rssi := Some (Finite 0)\<rparr>) = ''N/A''"
proof -
  have e: "ev_rssi sample_scan = Some (Finite (- 52))" by (simp add: sample_scan_def)
  have r: "scan_rssi sample_row = Some (Finite (- 52))" by (simp add: sample_row_def)
  have n: "Finite (- 52) \<noteq> Finite 0" by simp
  note t = rssi_rendered_iff_nonzero [of "\<lambda>n. ''-52''" sample_scan sample_row]
  from t e n have l: "signal_strength_line (\<lambda>n. ''-52'') sample_scan =
      Some (''Signal strength: '' @ ''-52'' @ '' dBm'')" by blast
  from t r n have c: "signal_strength_cell (\<lambda>n. ''-52'') sample_row = ''-52'' @ '' dBm''"
    by blast
  note z = rssi_rendered_iff_nonzero [of "\<lambda>n. ''0''"
      "sample_scan\<lparr>ev_rssi := Some (Finite 0)\<rparr>" "sample_row\<lparr>scan_rssi := Some (Finite 0)\<rparr>"]
  from z have zl: "signal_strength_line (\<lambda>n. ''0'')
      (sample_scan\<lparr>ev_rssi := Some (Finite 0)\<rparr>) = None" by simp
  from z have zc: "signal_strength_cell (\<lambda>n. ''0'')
      (sample_row\<lparr>scan_rssi := Some (Finite 0)\<rparr>) = ''N/A''" by simp
  from e r n l c zl zc show ?thesis by simp
qed

end
